theory Spec2Isabelle
  imports Main "HOL-Library.Sublist"
begin

section \<open>Strings of the host language\<close>

text \<open>
  A string is a list of code units; a \<^typ>\<open>char\<close> stands for a code unit below 256.
  \<^verbatim>\<open>String.prototype.trim\<close> removes white space and line terminators from both ends:
  among the code units below 256 these are TAB, LF, VT, FF, CR, SPACE and NBSP.
\<close>

definition is_space :: "char \<Rightarrow> bool" where
  "is_space c =
     (c = CHR 0x09 \<or> c = CHR 0x0A \<or> c = CHR 0x0B \<or> c = CHR 0x0C \<or> c = CHR 0x0D \<or>
      c = CHR 0x20 \<or> c = CHR 0xA0)"

definition trim :: "string \<Rightarrow> string" where
  "trim s = rev (dropWhile is_space (rev (dropWhile is_space s)))"

text \<open>
  \<^verbatim>\<open>s.split(d)\<close> with a one-character separator: the pieces between the occurrences of
  \<open>d\<close>; the result is never empty (\<^verbatim>\<open>''.split(' ')\<close> is \<^verbatim>\<open>['']\<close>) and two adjacent
  separators give an empty piece.
\<close>

fun split_on :: "char \<Rightarrow> string \<Rightarrow> string list" where
  "split_on d [] = [[]]"
| "split_on d (c # cs) =
     (let r = split_on d cs in if c = d then [] # r else (c # hd r) # tl r)"

section \<open>Values and errors of the host language\<close>

text \<open>
  What \<^verbatim>\<open>writer\<close> looks at in a value: whether it is truthy, whether it carries a
  \<^verbatim>\<open>toReplString\<close> property, and whether \<^verbatim>\<open>typeof\<close> gives \<^verbatim>\<open>'string'\<close>. Numbers are
  integers here; a function is named by a number and called through the host; an object
  is the list of its own properties.
\<close>

datatype jsval =
    JUndefined
  | JNull
  | JBool bool
  | JNum int
  | JStr string
  | JFun nat
  | JObj "(string \<times> jsval) list"

datatype js_error = JsError string

fun truthy :: "jsval \<Rightarrow> bool" where
  "truthy JUndefined = False"
| "truthy JNull = False"
| "truthy (JBool b) = b"
| "truthy (JNum n) = (n \<noteq> 0)"
| "truthy (JStr s) = (s \<noteq> [])"
| "truthy (JFun f) = True"
| "truthy (JObj ps) = True"

text \<open>
  Reading a property: an object gives the value stored under the name, and
  \<^verbatim>\<open>undefined\<close> when there is none; the built-in prototypes of the other values carry no
  \<^verbatim>\<open>toReplString\<close>.
\<close>

fun get_prop :: "jsval \<Rightarrow> string \<Rightarrow> jsval" where
  "get_prop (JObj ps) k = (case map_of ps k of Some v \<Rightarrow> v | None \<Rightarrow> JUndefined)"
| "get_prop v k = JUndefined"

fun is_string :: "jsval \<Rightarrow> bool" where
  "is_string (JStr s) = True"
| "is_string v = False"

section \<open>The state of the REPL\<close>

text \<open>
  The context object that the REPL hands to \<^verbatim>\<open>eval\<close> is a reference into the heap of the
  host. The heap, the database behind the shell API and everything else the host owns is
  the world \<open>'w\<close>. The three fields of the mapper that \<^verbatim>\<open>cli-repl.ts\<close> writes are fields of
  the state. \<open>trace\<close> is a ghost field: the calls made to the host so far, in order.
\<close>

type_synonym ref = nat
type_synonym loc = nat

datatype event =
    CallUse "string option"
  | CallIt
  | ReadHelp
  | CallEval string ref bool bool
  | CallCompile string "loc list"
  | ConsoleLog string
  | Callback "js_error + jsval"

record 'w state =
  world :: 'w
  checkAwait :: bool
  awaitLoc :: "loc list"
  cursorAssigned :: bool
  trace :: "event list"

text \<open>
  A call into the host (the original \<^verbatim>\<open>eval\<close>, a method of the shell API, a
  \<^verbatim>\<open>toReplString\<close> method) reads \<^verbatim>\<open>checkAwait\<close> and \<^verbatim>\<open>cursorAssigned\<close>, changes the world,
  pushes locations on \<^verbatim>\<open>awaitLoc\<close>, and returns a value or throws. The assignments to
  \<^verbatim>\<open>checkAwait\<close> and \<^verbatim>\<open>cursorAssigned\<close> are those of \<^verbatim>\<open>cli-repl.ts\<close> only.

  The original \<^verbatim>\<open>eval\<close> is \<^verbatim>\<open>util.promisify(this.repl.eval)\<close>: its promise is settled by
  the callback of the REPL's \<^verbatim>\<open>eval\<close>. On an error that the line raises while it runs, the
  REPL's \<^verbatim>\<open>eval\<close> hands the error to its domain and returns without calling back, so the
  promise never settles and the \<^verbatim>\<open>await\<close> never resumes. The outcome of the original
  \<^verbatim>\<open>eval\<close> is therefore optional: \<open>None\<close> stands for a promise that never settles. An
  error found before the line runs (a syntax error) is passed to the callback, and is a
  throw here.
\<close>

type_synonym 'w effect = "bool \<Rightarrow> bool \<Rightarrow> 'w \<Rightarrow> (js_error + jsval) \<times> loc list \<times> 'w"

type_synonym 'w eval_effect =
  "bool \<Rightarrow> bool \<Rightarrow> 'w \<Rightarrow> (js_error + jsval) option \<times> loc list \<times> 'w"

record 'w host =
  originalEval :: "string \<Rightarrow> ref \<Rightarrow> string \<Rightarrow> 'w eval_effect"
  shellApi_use :: "string option \<Rightarrow> 'w effect"
  shellApi_it :: "'w effect"
  shellApi_help :: jsval
  call_method :: "nat \<Rightarrow> jsval \<Rightarrow> 'w effect"
  compile :: "string \<Rightarrow> loc list \<Rightarrow> js_error + string"
  inspect :: "jsval \<Rightarrow> string"

definition run_effect :: "'w effect \<Rightarrow> 'w state \<Rightarrow> (js_error + jsval) \<times> 'w state" where
  "run_effect f s =
     (case f (checkAwait s) (cursorAssigned s) (world s) of
        (r, locs, w) \<Rightarrow> (r, s\<lparr>world := w, awaitLoc := awaitLoc s @ locs\<rparr>))"

definition run_eval ::
  "'w eval_effect \<Rightarrow> 'w state \<Rightarrow> (js_error + jsval) option \<times> 'w state" where
  "run_eval f s =
     (case f (checkAwait s) (cursorAssigned s) (world s) of
        (r, locs, w) \<Rightarrow> (r, s\<lparr>world := w, awaitLoc := awaitLoc s @ locs\<rparr>))"

text \<open>An awaited call that has returned or thrown.\<close>

definition settled ::
  "(js_error + jsval) \<times> 'w state \<Rightarrow> (js_error + jsval) option \<times> 'w state" where
  "settled p = (Some (fst p), snd p)"

definition emit :: "event \<Rightarrow> 'w state \<Rightarrow> 'w state" where
  "emit e s = s\<lparr>trace := trace s @ [e]\<rparr>"

section \<open>CliRepl.writer\<close>

text \<open>
  \<^verbatim>\<open>
  writer(output: any): string {
    if (output && output.toReplString) { return output.toReplString(); }
    if (typeof output === 'string') { return output; }
    return util.inspect(output, { showProxy: false, colors: true });
  }
  \<close>
  Calling a property that is not a function throws a \<^verbatim>\<open>TypeError\<close>.
\<close>

definition writer :: "'w host \<Rightarrow> jsval \<Rightarrow> 'w state \<Rightarrow> (js_error + jsval) \<times> 'w state" where
  "writer h output s =
     (if truthy output \<and> truthy (get_prop output ''toReplString'') then
        (case get_prop output ''toReplString'' of
           JFun f \<Rightarrow> run_effect (call_method h f output) s
         | _ \<Rightarrow> (Inl (JsError ''TypeError: output.toReplString is not a function''), s))
      else if is_string output then (Inr output, s)
      else (Inr (JStr (inspect h output)), s))"

section \<open>CliRepl.evaluator\<close>

text \<open>
  \<^verbatim>\<open>
  const argv = input.trim().split(' ');
  const cmd = argv[0];
  argv.shift();
  switch(cmd) {
    case 'use':    return this.shellApi.use(argv[0]);
    case 'it':     return this.shellApi.it();
    case 'help()': return this.shellApi.help;
    case 'var':    this.mapper.cursorAssigned = true;
    default:
      const finalValue = await originalEval(input, context, filename);
      return await this.writer(finalValue);
  }
  \<close>
  After \<^verbatim>\<open>argv.shift()\<close>, \<^verbatim>\<open>argv[0]\<close> is the second piece of the line, or \<^verbatim>\<open>undefined\<close>.
  The \<^verbatim>\<open>'var'\<close> case falls through into the default case. The result is \<open>None\<close> when
  the \<^verbatim>\<open>await\<close> of the original \<^verbatim>\<open>eval\<close> never resumes: the evaluator then stops in the
  state reached.
\<close>

definition command :: "string \<Rightarrow> string" where
  "command input = hd (split_on CHR '' '' (trim input))"

definition first_arg :: "string \<Rightarrow> string option" where
  "first_arg input =
     (case tl (split_on CHR '' '' (trim input)) of [] \<Rightarrow> None | a # _ \<Rightarrow> Some a)"

definition evaluator ::
  "'w host \<Rightarrow> string \<Rightarrow> ref \<Rightarrow> string \<Rightarrow> 'w state
     \<Rightarrow> (js_error + jsval) option \<times> 'w state" where
  "evaluator h input context filename s =
     (let cmd = command input in
      if cmd = ''use'' then
        settled (run_effect (shellApi_use h (first_arg input))
                   (emit (CallUse (first_arg input)) s))
      else if cmd = ''it'' then
        settled (run_effect (shellApi_it h) (emit CallIt s))
      else if cmd = ''help()'' then
        (Some (Inr (shellApi_help h)), emit ReadHelp s)
      else
        (let s1 = (if cmd = ''var'' then s\<lparr>cursorAssigned := True\<rparr> else s);
             s2 = emit (CallEval input context (checkAwait s1) (cursorAssigned s1)) s1
         in case run_eval (originalEval h input context filename) s2 of
              (None, s3) \<Rightarrow> (None, s3)
            | (Some (Inl err), s3) \<Rightarrow> (Some (Inl err), s3)
            | (Some (Inr finalValue), s3) \<Rightarrow> settled (writer h finalValue s3)))"

section \<open>customEval\<close>

text \<open>
  \<^verbatim>\<open>
  const customEval = async(input, context, filename, callback) => {
    try {
      let str;
      if (this.useAntlr) {
        // Eval once with execution turned off and a throwaway copy of the context
        this.mapper.checkAwait = true;
        this.mapper.awaitLoc = [];
        const copyCtx = context;// _.cloneDeep(context);
        await this.evaluator(originalEval, input, copyCtx, filename);
        const syncStr = compile(input, this.mapper.awaitLoc);
        if (syncStr.trim() !== input.trim()) { console.log(`DEBUG: rewrote ...`); }
        // Eval the rewritten string, this time for real
        this.mapper.checkAwait = false;
        str = await this.evaluator(originalEval, syncStr, context, filename);
      } else {
        str = await this.evaluator(originalEval, input, context, filename);
      }
      callback(null, str);
    } catch (err) { callback(err, null); }
    finally { this.mapper.cursorAssigned = false; }
  };
  \<close>
  \<open>passes\<close> is the body of the \<^verbatim>\<open>try\<close> block up to the call of the callback: a throw
  of any step leaves it with \<open>Inl\<close> and the state reached, and an \<^verbatim>\<open>await\<close> that never
  resumes leaves it with \<open>None\<close> and the state reached. \<^verbatim>\<open>copyCtx\<close> is bound to the
  reference \<^verbatim>\<open>context\<close> itself. The callback is the host's continuation and is taken not
  to throw; it is recorded in the trace. When an \<^verbatim>\<open>await\<close> never resumes, neither the
  callback nor the \<^verbatim>\<open>catch\<close> and \<^verbatim>\<open>finally\<close> blocks run.
\<close>

definition debug_message :: "string \<Rightarrow> string \<Rightarrow> string" where
  "debug_message input syncStr =
     ''DEBUG: rewrote input \"'' @ trim input @ ''\" to \"'' @ trim syncStr @ ''\"''"

definition passes ::
  "'w host \<Rightarrow> bool \<Rightarrow> string \<Rightarrow> ref \<Rightarrow> string \<Rightarrow> 'w state
     \<Rightarrow> (js_error + jsval) option \<times> 'w state" where
  "passes h useAntlr input context filename s =
     (if useAntlr then
        (let s1 = s\<lparr>checkAwait := True, awaitLoc := []\<rparr>;
             copyCtx = context
         in case evaluator h input copyCtx filename s1 of
              (None, s2) \<Rightarrow> (None, s2)
            | (Some (Inl err), s2) \<Rightarrow> (Some (Inl err), s2)
            | (Some (Inr dry), s2) \<Rightarrow>
                (let s3 = emit (CallCompile input (awaitLoc s2)) s2
                 in case compile h input (awaitLoc s2) of
                      Inl err \<Rightarrow> (Some (Inl err), s3)
                    | Inr syncStr \<Rightarrow>
                        (let s4 = (if trim syncStr \<noteq> trim input
                                   then emit (ConsoleLog (debug_message input syncStr)) s3
                                   else s3);
                             s5 = s4\<lparr>checkAwait := False\<rparr>
                         in evaluator h syncStr context filename s5)))
      else evaluator h input context filename s)"

definition customEval ::
  "'w host \<Rightarrow> bool \<Rightarrow> string \<Rightarrow> ref \<Rightarrow> string \<Rightarrow> 'w state
     \<Rightarrow> (js_error + jsval) option \<times> 'w state" where
  "customEval h useAntlr input context filename s =
     (case passes h useAntlr input context filename s of
        (None, s') \<Rightarrow> (None, s')
      | (Some r, s') \<Rightarrow> (Some r, (emit (Callback r) s')\<lparr>cursorAssigned := False\<rparr>))"

section \<open>A concrete host\<close>

text \<open>
  A small host on which the definitions can be run. Its world holds the binding of the
  variable \<^verbatim>\<open>n\<close> in each context object, the number of batches the iterator of the shell
  API has handed out, and the name of the current database. The line \<^verbatim>\<open>n = n + 1\<close>
  increments the binding in the context object it is given and returns the new value; the
  lines \<^verbatim>\<open>x.y\<close> and \<^verbatim>\<open>var x = y.z\<close> fail while they run (\<^verbatim>\<open>x\<close> and \<^verbatim>\<open>y\<close> are not
  bound), so their promise never settles; any other line that starts with \<^verbatim>\<open>var\<close>
  returns \<^verbatim>\<open>undefined\<close>; every other line is refused before it runs, and throws.
  \<^verbatim>\<open>it\<close> hands out the next batch and returns its number. The rewriter finds nothing to
  rewrite and returns its input.
\<close>

record shell_world =
  binding_n :: "ref \<Rightarrow> int"
  batches :: nat
  current_db :: string

definition demo_eval :: "string \<Rightarrow> ref \<Rightarrow> string \<Rightarrow> shell_world eval_effect" where
  "demo_eval input context filename tracking assigned w =
     (if trim input = ''n = n + 1'' then
        (Some (Inr (JNum (binding_n w context + 1))), [],
         w\<lparr>binding_n := (binding_n w)(context := binding_n w context + 1)\<rparr>)
      else if trim input = ''x.y'' \<or> trim input = ''var x = y.z'' then (None, [], w)
      else if take 3 (trim input) = ''var'' then (Some (Inr JUndefined), [], w)
      else (Some (Inl (JsError ''evaluation failed'')), [], w))"

definition demo_use :: "string option \<Rightarrow> shell_world effect" where
  "demo_use arg tracking assigned w =
     (case arg of
        None \<Rightarrow> (Inl (JsError ''missing database name''), [], w)
      | Some db \<Rightarrow> (Inr (JStr (''switched to db '' @ db)), [], w\<lparr>current_db := db\<rparr>))"

definition demo_it :: "shell_world effect" where
  "demo_it tracking assigned w =
     (Inr (JNum (int (batches w) + 1)), [], w\<lparr>batches := batches w + 1\<rparr>)"

definition demo_call :: "nat \<Rightarrow> jsval \<Rightarrow> shell_world effect" where
  "demo_call f this tracking assigned w = (Inr (JStr ''custom rendering''), [], w)"

definition demo_inspect :: "jsval \<Rightarrow> string" where
  "demo_inspect v =
     (case v of
        JNum n \<Rightarrow> (if n = 1 then ''1'' else if n = 2 then ''2'' else ''<number>'')
      | JUndefined \<Rightarrow> ''undefined''
      | _ \<Rightarrow> ''<value>'')"

definition demo_host :: "shell_world host" where
  "demo_host =
     \<lparr>originalEval = demo_eval, shellApi_use = demo_use, shellApi_it = demo_it,
      shellApi_help = JObj [(''toReplString'', JFun 0)], call_method = demo_call,
      compile = (\<lambda>input locs. Inr input), inspect = demo_inspect\<rparr>"

definition demo_state :: "shell_world state" where
  "demo_state =
     \<lparr>world = \<lparr>binding_n = (\<lambda>r. 0), batches = 0, current_db = ''test''\<rparr>,
      checkAwait = False, awaitLoc = [], cursorAssigned = False, trace = []\<rparr>"

section \<open>Reading the trace\<close>

text \<open>
  The first white-space-separated token of a line: the longest run of characters that are
  not white space, after the leading white space. \<open>command\<close> above is what the code
  takes instead: the piece of the trimmed line before its first space character.
\<close>

definition first_ws_token :: "string \<Rightarrow> string" where
  "first_ws_token s = takeWhile (\<lambda>c. \<not> is_space c) (dropWhile is_space s)"

definition is_verb :: "string \<Rightarrow> bool" where
  "is_verb cmd = (cmd = ''use'' \<or> cmd = ''it'' \<or> cmd = ''help()'')"

text \<open>The events that stand for the three handlers of the shell API.\<close>

fun is_handler_call :: "event \<Rightarrow> bool" where
  "is_handler_call (CallUse a) = True"
| "is_handler_call CallIt = True"
| "is_handler_call ReadHelp = True"
| "is_handler_call e = False"

text \<open>A call of the original \<^verbatim>\<open>eval\<close> that found \<^verbatim>\<open>cursorAssigned\<close> set.\<close>

fun sees_cursorAssigned :: "event \<Rightarrow> bool" where
  "sees_cursorAssigned (CallEval i c t a) = a"
| "sees_cursorAssigned e = True"

text \<open>The events added to the trace between two states.\<close>

definition emitted :: "'w state \<Rightarrow> 'w state \<Rightarrow> event list" where
  "emitted s s' = drop (length (trace s)) (trace s')"

definition verb_event :: "string \<Rightarrow> event" where
  "verb_event input =
     (if command input = ''use'' then CallUse (first_arg input)
      else if command input = ''it'' then CallIt else ReadHelp)"

definition evaluator_event :: "string \<Rightarrow> ref \<Rightarrow> 'w state \<Rightarrow> event" where
  "evaluator_event input context s =
     (if is_verb (command input) then verb_event input
      else CallEval input context (checkAwait s) (command input = ''var'' \<or> cursorAssigned s))"

section \<open>The editor bridge\<close>

text \<open>
  The class \<^verbatim>\<open>Editor\<close> (\<^verbatim>\<open>packages/editor/src/editor.ts\<close>) is not among the sources; its
  test suite \<^verbatim>\<open>editor.spec.ts\<close> is. The definitions of this section follow the
  specification, and the expected values of the tests are checked against them below.
\<close>

subsection \<open>TextClassifier\<close>

text \<open>
  Modelled from the spec: the characters of a name. \<^verbatim>\<open>Editor._isIdentifier\<close> is missing;
  the specification speaks of the lexical grammar of a dotted identifier path,
  \<^verbatim>\<open>name(.name)*\<close> or a name beginning with \<^verbatim>\<open>$\<close>. A name is read as an identifier of the
  host language over the ASCII characters: a letter, \<^verbatim>\<open>_\<close> or \<^verbatim>\<open>$\<close>, followed by letters,
  digits, \<^verbatim>\<open>_\<close> and \<^verbatim>\<open>$\<close>.
\<close>

definition is_letter :: "char \<Rightarrow> bool" where
  "is_letter c =
     (let n = (of_char c :: nat) in (65 \<le> n \<and> n \<le> 90) \<or> (97 \<le> n \<and> n \<le> 122))"

definition is_digit :: "char \<Rightarrow> bool" where
  "is_digit c = (let n = (of_char c :: nat) in 48 \<le> n \<and> n \<le> 57)"

definition is_ident_start :: "char \<Rightarrow> bool" where
  "is_ident_start c = (is_letter c \<or> c = CHR ''_'' \<or> c = CHR ''$'')"

definition is_ident_part :: "char \<Rightarrow> bool" where
  "is_ident_part c = (is_ident_start c \<or> is_digit c)"

fun is_name :: "string \<Rightarrow> bool" where
  "is_name [] = False"
| "is_name (c # cs) = (is_ident_start c \<and> list_all is_ident_part cs)"

text \<open>
  Modelled from the spec: \<^verbatim>\<open>isBareIdentifier\<close>, the \<^verbatim>\<open>_isIdentifier\<close> of the missing class:
  true iff, after trimming white space, the text is a dotted identifier path. The
  recogniser cuts the trimmed text at the dots and asks every piece to be a name.
\<close>

definition isBareIdentifier :: "string \<Rightarrow> bool" where
  "isBareIdentifier code = list_all is_name (split_on CHR ''.'' (trim code))"

text \<open>
  Modelled from the spec: the grammar \<^verbatim>\<open>name(.name)*\<close> of the same missing function, as an
  inductive predicate, to compare the recogniser with.
\<close>

inductive dotted_path :: "string \<Rightarrow> bool" where
  name: "is_name n \<Longrightarrow> dotted_path n"
| dot: "is_name n \<Longrightarrow> dotted_path p \<Longrightarrow> dotted_path (n @ ''.'' @ p)"

text \<open>
  Modelled from the spec: the characters that the specification excludes from a bare
  identifier: call parentheses, brackets, braces, quotes (double, single, backtick),
  operators and punctuation, the backslash, and white space.
\<close>

definition syntax_chars :: "string" where
  "syntax_chars =
     ''()[]{}+-*/%=<>!&|^~?:;,#@ '' @
     [CHR 0x22, CHR 0x27, CHR 0x60, CHR 0x5C, CHR 0x09, CHR 0x0A, CHR 0x0D]"

text \<open>The pieces of a split, put together again (used in the proofs only).\<close>

fun join_with :: "char \<Rightarrow> string list \<Rightarrow> string" where
  "join_with d [] = []"
| "join_with d [x] = x"
| "join_with d (x # y # ys) = x @ d # join_with d (y # ys)"

subsection \<open>EditorBridge\<close>

text \<open>
  Modelled from the spec: \<^verbatim>\<open>_prepareResult\<close> of the missing class. If \<^verbatim>\<open>originalCode\<close>
  (trimmed) is a bare identifier, the result is \<^verbatim>\<open>"<originalCode> = <modifiedCode>"\<close>;
  otherwise it is \<^verbatim>\<open>modifiedCode\<close> unchanged. \<open>isBareIdentifier\<close> does the trimming.
\<close>

definition prepareResult :: "string \<Rightarrow> string \<Rightarrow> string" where
  "prepareResult originalCode modifiedCode =
     (if isBareIdentifier originalCode then originalCode @ '' = '' @ modifiedCode
      else modifiedCode)"

text \<open>
  Modelled from the spec: the errors of the missing edit flow and their messages. The
  text of the message for a missing editor is the one the tests expect.
\<close>

datatype editor_error = NoEditorConfigured | EditorExecutionFailed string

fun error_message :: "editor_error \<Rightarrow> string" where
  "error_message NoEditorConfigured =
     ''Command failed with an error: please define an external editor''"
| "error_message (EditorExecutionFailed reason) = ''Command failed with an error: '' @ reason"

text \<open>
  Modelled from the spec: \<^verbatim>\<open>resolveEditorCommand\<close>, the \<^verbatim>\<open>_getEditor\<close> of the missing class.
  The configuration lookup and the environment variable each give a text or nothing; the
  configuration value takes precedence, and the call fails when both are absent.
\<close>

definition resolveEditorCommand :: "string option \<Rightarrow> string option \<Rightarrow> editor_error + string" where
  "resolveEditorCommand config env =
     (case config of
        Some cmd \<Rightarrow> Inr cmd
      | None \<Rightarrow> (case env of Some cmd \<Rightarrow> Inr cmd | None \<Rightarrow> Inl NoEditorConfigured))"

text \<open>
  Modelled from the spec: the first step of the missing \<^verbatim>\<open>runEditCommand\<close>, which resolves
  the editor command and propagates \<^verbatim>\<open>NoEditorConfigured\<close>. The steps that follow (the
  temporary file, the child process, the reconciliation) are the parameter \<open>edit_with\<close>.
\<close>

definition runEditCommand ::
  "string option \<Rightarrow> string option \<Rightarrow> (string \<Rightarrow> string \<Rightarrow> editor_error + 'a) \<Rightarrow> string
     \<Rightarrow> editor_error + 'a" where
  "runEditCommand config env edit_with inputArgument =
     (case resolveEditorCommand config env of
        Inl err \<Rightarrow> Inl err
      | Inr editor \<Rightarrow> edit_with editor inputArgument)"

text \<open>
  Modelled from the spec: \<^verbatim>\<open>prepareContent\<close>, the \<^verbatim>\<open>_getEditorContent\<close> of the missing
  class. \<open>lookup\<close> is the host's lookup, which gives the source text of the value that a
  name is bound to; \<open>lastEditedContent\<close> is the content of the last edit, if there was one.
\<close>

definition prepareContent :: "(string \<Rightarrow> string) \<Rightarrow> string option \<Rightarrow> string \<Rightarrow> string" where
  "prepareContent lookup lastEditedContent inputArgument =
     (if inputArgument = [] then (case lastEditedContent of Some c \<Rightarrow> c | None \<Rightarrow> [])
      else if isBareIdentifier inputArgument then lookup inputArgument
      else inputArgument)"

text \<open>
  The lookup of the tests: every name is bound to the function \<^verbatim>\<open>wrapper\<close> (its source
  text is written on one line here).
\<close>

definition demo_lookup :: "string \<Rightarrow> string" where
  "demo_lookup name = ''function wrapper(...args) { return { args, done: true }; }''"

section \<open>Properties of the evaluator\<close>

subsection \<open>The token that the code takes\<close>

text \<open>
  The trimmed line is the line without its leading white space, cut before its trailing
  white space. When the piece before the first space character of the trimmed line is not
  empty and has no white space in it, it is the first white-space-separated token of the
  line; so it is for the three verbs and for \<^verbatim>\<open>var\<close>.
\<close>

lemma hd_split_on: "hd (split_on d s) = takeWhile (\<lambda>c. c \<noteq> d) s"
  by (induction s) (simp_all add: Let_def)

lemma trim_decomposition:
  "\<exists>r. dropWhile is_space s = trim s @ r \<and> (\<forall>x\<in>set r. is_space x)"
proof -
  define a where "a = dropWhile is_space s"
  define r where "r = rev (takeWhile is_space (rev a))"
  have "a = trim s @ r"
    unfolding trim_def a_def r_def
    by (metis rev_append rev_rev_ident takeWhile_dropWhile_id)
  moreover have "\<forall>x\<in>set r. is_space x"
    unfolding r_def by (auto dest: set_takeWhileD)
  ultimately show ?thesis unfolding a_def by blast
qed

lemma takeWhile_all_fail: "\<forall>x\<in>set r. \<not> P x \<Longrightarrow> takeWhile P r = []"
  by (cases r) simp_all

lemma command_is_first_ws_token:
  assumes c: "command input \<noteq> []" and ns: "\<forall>x\<in>set (command input). \<not> is_space x"
  shows "first_ws_token input = command input"
proof -
  let ?t = "trim input"
  let ?c = "command input"
  obtain r where a: "dropWhile is_space input = ?t @ r" and r: "\<forall>x\<in>set r. is_space x"
    using trim_decomposition by blast
  have cdef: "?c = takeWhile (\<lambda>x. x \<noteq> CHR '' '') ?t"
    by (simp add: command_def hd_split_on)
  define u where "u = dropWhile (\<lambda>x. x \<noteq> CHR '' '') ?t"
  have t: "?t = ?c @ u"
    by (simp add: cdef u_def)
  have "takeWhile (\<lambda>x. \<not> is_space x) (?c @ u @ r) = ?c"
  proof (cases u)
    case Nil
    have "takeWhile (\<lambda>x. \<not> is_space x) r = []"
      using r by (intro takeWhile_all_fail) simp
    with Nil ns show ?thesis by (simp add: takeWhile_append2)
  next
    case (Cons y ys)
    have "u \<noteq> [] \<Longrightarrow> \<not> (hd u \<noteq> CHR '' '')"
      unfolding u_def by (rule hd_dropWhile)
    with Cons have "y = CHR '' ''" by simp
    then have "is_space y" by (simp add: is_space_def)
    with Cons ns show ?thesis by (simp add: takeWhile_append2)
  qed
  with a t show ?thesis
    by (metis append.assoc first_ws_token_def)
qed

lemma verb_is_first_ws_token: "is_verb (command input) \<Longrightarrow> first_ws_token input = command input"
  by (rule command_is_first_ws_token) (auto simp: is_verb_def is_space_def)

lemma var_is_first_ws_token: "command input = ''var'' \<Longrightarrow> first_ws_token input = ''var''"
  using command_is_first_ws_token [of input] by (simp add: is_space_def)

subsection \<open>What the steps leave unchanged\<close>

lemma run_effect_fields:
  "trace (snd (run_effect f s)) = trace s"
  "checkAwait (snd (run_effect f s)) = checkAwait s"
  "cursorAssigned (snd (run_effect f s)) = cursorAssigned s"
  by (simp_all add: run_effect_def split: prod.splits)

lemma run_eval_fields:
  "trace (snd (run_eval f s)) = trace s"
  "checkAwait (snd (run_eval f s)) = checkAwait s"
  "cursorAssigned (snd (run_eval f s)) = cursorAssigned s"
  by (simp_all add: run_eval_def split: prod.splits)

lemma settled_simps:
  "fst (settled p) = Some (fst p)"
  "snd (settled p) = snd p"
  by (simp_all add: settled_def)

lemma writer_fields:
  "trace (snd (writer h v s)) = trace s"
  "checkAwait (snd (writer h v s)) = checkAwait s"
  "cursorAssigned (snd (writer h v s)) = cursorAssigned s"
  by (simp_all add: writer_def run_effect_fields split: jsval.splits)

lemma emit_fields:
  "trace (emit e s) = trace s @ [e]"
  "checkAwait (emit e s) = checkAwait s"
  "cursorAssigned (emit e s) = cursorAssigned s"
  "awaitLoc (emit e s) = awaitLoc s"
  "world (emit e s) = world s"
  by (simp_all add: emit_def)

lemma evaluator_trace:
  "trace (snd (evaluator h input context filename s)) =
     trace s @ [evaluator_event input context s]"
  by (simp add: evaluator_def evaluator_event_def is_verb_def verb_event_def Let_def
        run_effect_fields run_eval_fields writer_fields emit_fields settled_simps
        case_prod_beta option.case_eq_if sum.case_eq_if)

lemma evaluator_trace_eq:
  "evaluator h i context filename t = (r, t') \<Longrightarrow>
   trace t' = trace t @ [evaluator_event i context t]"
  using evaluator_trace [of h i "context" filename t] by simp

lemma evaluator_checkAwait:
  "checkAwait (snd (evaluator h input context filename s)) = checkAwait s"
  by (simp add: evaluator_def Let_def
        run_effect_fields run_eval_fields writer_fields emit_fields settled_simps
        case_prod_beta option.case_eq_if sum.case_eq_if)

lemma evaluator_cursorAssigned:
  "cursorAssigned (snd (evaluator h input context filename s)) =
     (cursorAssigned s \<or> (command input = ''var''))"
  by (simp add: evaluator_def Let_def
        run_effect_fields run_eval_fields writer_fields emit_fields settled_simps
        case_prod_beta option.case_eq_if sum.case_eq_if)

text \<open>The handlers of the verbs return or throw: a verb line always settles.\<close>

lemma evaluator_verb_settles:
  "is_verb (command input) \<Longrightarrow> fst (evaluator h input context filename s) \<noteq> None"
  by (auto simp: evaluator_def is_verb_def settled_simps)

lemma is_handler_call_verb_event: "is_handler_call (verb_event input)"
  by (simp add: verb_event_def)

lemma get_prop_JFun_truthy: "get_prop v k = JFun f \<Longrightarrow> truthy v"
  by (cases v) simp_all

lemma customEval_False:
  "customEval h False input context filename s =
     (case evaluator h input context filename s of
        (None, s') \<Rightarrow> (None, s')
      | (Some r, s') \<Rightarrow> (Some r, (emit (Callback r) s')\<lparr>cursorAssigned := False\<rparr>))"
  by (simp add: customEval_def passes_def)

lemma customEval_trace_False:
  "trace (snd (customEval h False input context filename s)) =
     trace s @ evaluator_event input context s #
       (case fst (customEval h False input context filename s) of
          None \<Rightarrow> []
        | Some r \<Rightarrow> [Callback r])"
  using evaluator_trace [of h input "context" filename s]
  by (auto simp: customEval_False emit_fields split: prod.splits option.splits)

text \<open>
  When the result or the error is delivered, the callback is the last event and the
  \<^verbatim>\<open>finally\<close> block has run.
\<close>

lemma customEval_delivered:
  assumes "fst (customEval h useAntlr input context filename s) = Some r"
  shows "cursorAssigned (snd (customEval h useAntlr input context filename s)) = False"
    and "last (trace (snd (customEval h useAntlr input context filename s))) = Callback r"
  using assms
  by (auto simp: customEval_def emit_fields split: prod.splits option.splits)

text \<open>
  When an \<^verbatim>\<open>await\<close> never resumes, nothing is delivered and the \<^verbatim>\<open>finally\<close> block does
  not run: the flag of a \<^verbatim>\<open>var\<close> line stays set.
\<close>

lemma customEval_pending_keeps_flag:
  assumes "fst (customEval h useAntlr input context filename s) = None"
    and "command input = ''var''"
  shows "cursorAssigned (snd (customEval h useAntlr input context filename s))"
proof -
  have keep: "cursorAssigned (snd (evaluator h i context filename t))"
    if "cursorAssigned t \<or> command i = ''var''" for i and t :: "'a state"
    using that by (simp add: evaluator_cursorAssigned)
  show ?thesis
  proof (cases useAntlr)
    case False
    with assms keep [of s input] show ?thesis
      by (auto simp: customEval_False split: prod.splits option.splits)
  next
    case True
    let ?s1 = "s\<lparr>checkAwait := True, awaitLoc := []\<rparr>"
    obtain r1 s2 where dry: "evaluator h input context filename ?s1 = (r1, s2)"
      by (cases "evaluator h input context filename ?s1")
    have c2: "cursorAssigned s2"
      using keep [of ?s1 input] dry assms(2) by simp
    show ?thesis
    proof (cases r1)
      case None
      with True dry c2 show ?thesis by (simp add: customEval_def passes_def)
    next
      case (Some a)
      show ?thesis
      proof (cases a)
        case (Inl err)
        with Some True dry assms(1) show ?thesis by (simp add: customEval_def passes_def)
      next
        case (Inr dryv)
        show ?thesis
        proof (cases "compile h input (awaitLoc s2)")
          case (Inl err)
          with Some Inr True dry assms(1) show ?thesis
            by (simp add: customEval_def passes_def Let_def)
        next
          case (Inr syncStr)
          define s5 where "s5 =
            (if trim syncStr \<noteq> trim input
             then emit (ConsoleLog (debug_message input syncStr))
                    (emit (CallCompile input (awaitLoc s2)) s2)
             else emit (CallCompile input (awaitLoc s2)) s2)\<lparr>checkAwait := False\<rparr>"
          have c5: "cursorAssigned s5"
            using c2 by (simp add: s5_def emit_fields)
          have p: "passes h True input context filename s = evaluator h syncStr context filename s5"
            using dry Some \<open>a = Inr dryv\<close> Inr by (simp add: passes_def Let_def s5_def)
          from keep [of s5 syncStr] c5
          have "cursorAssigned (snd (evaluator h syncStr context filename s5))" by simp
          with p True assms(1) show ?thesis
            by (auto simp: customEval_def split: prod.splits option.splits)
        qed
      qed
    qed
  qed
qed

text \<open>
  With rewriting enabled, \<^verbatim>\<open>checkAwait\<close> is left set exactly when the dry run or the
  rewriter throws, or the dry run never settles: the assignment \<^verbatim>\<open>checkAwait = false\<close>
  stands after both steps.
\<close>

lemma evaluator_checkAwait_eq:
  "evaluator h i context filename t = (r, t') \<Longrightarrow> checkAwait t' = checkAwait t"
  using evaluator_checkAwait [of h i "context" filename t] by simp

lemma customEval_leaves_checkAwait:
  "checkAwait (snd (customEval h True input context filename s)) =
     (case evaluator h input context filename (s\<lparr>checkAwait := True, awaitLoc := []\<rparr>) of
        (None, s2) \<Rightarrow> True
      | (Some (Inl err), s2) \<Rightarrow> True
      | (Some (Inr dry), s2) \<Rightarrow> isl (compile h input (awaitLoc s2)))"
  by (auto simp: customEval_def passes_def Let_def emit_fields
        dest!: evaluator_checkAwait_eq split: prod.splits option.splits sum.splits)

subsection \<open>The context of the dry run\<close>

text \<open>
  With rewriting enabled, the first call for a line that is no verb is the original
  \<^verbatim>\<open>eval\<close> on the reference \<^verbatim>\<open>context\<close> itself, in tracking mode.
\<close>

lemma dry_run_receives_context:
  "\<not> is_verb (command input) \<Longrightarrow>
   hd (emitted s (snd (customEval h True input context filename s))) =
     CallEval input context True (command input = ''var'' \<or> cursorAssigned s)"
proof -
  assume nv: "\<not> is_verb (command input)"
  let ?s1 = "s\<lparr>checkAwait := True, awaitLoc := []\<rparr>"
  let ?e = "CallEval input context True (command input = ''var'' \<or> cursorAssigned s)"
  obtain r1 s2 where dry: "evaluator h input context filename ?s1 = (r1, s2)"
    by (cases "evaluator h input context filename ?s1")
  have t2: "trace s2 = trace s @ [?e]"
    using evaluator_trace [of h input "context" filename ?s1] dry nv
    by (simp add: evaluator_event_def)
  have "\<exists>rest. trace (snd (customEval h True input context filename s)) = trace s @ ?e # rest"
    using dry t2
    by (auto simp: customEval_def passes_def Let_def emit_fields
          dest!: evaluator_trace_eq split: prod.splits option.splits sum.splits)
  then show ?thesis by (auto simp: emitted_def)
qed

text \<open>
  C1. The claim: the dry run works on an independent copy of the context, so nothing it
  changes is seen by the second pass. The code binds \<^verbatim>\<open>copyCtx\<close> to \<^verbatim>\<open>context\<close> itself
  (the call of \<^verbatim>\<open>cloneDeep\<close> is commented out). On the line \<^verbatim>\<open>n = n + 1\<close>, with \<^verbatim>\<open>n\<close>
  bound to 0 in the context object at reference 7: both calls of the original \<^verbatim>\<open>eval\<close>
  receive reference 7, the second pass finds the 1 that the dry run stored, and the line
  delivers 2 and leaves \<^verbatim>\<open>n\<close> at 2.
\<close>

theorem dry_run_shares_context:
  "binding_n (world demo_state) 7 = 0 \<and>
   fst (customEval demo_host True ''n = n + 1'' 7 ''repl'' demo_state) =
     Some (Inr (JStr ''2'')) \<and>
   binding_n (world (snd (customEval demo_host True ''n = n + 1'' 7 ''repl'' demo_state))) 7 = 2 \<and>
   trace (snd (customEval demo_host True ''n = n + 1'' 7 ''repl'' demo_state)) =
     [CallEval ''n = n + 1'' 7 True False, CallCompile ''n = n + 1'' [],
      CallEval ''n = n + 1'' 7 False False, Callback (Inr (JStr ''2''))]"
  by code_simp

subsection \<open>The tracking flag on the error paths\<close>

text \<open>
  C2. The claim: \<^verbatim>\<open>checkAwait\<close> is false when \<^verbatim>\<open>customEval\<close> returns, on every path. The
  \<^verbatim>\<open>finally\<close> block resets \<^verbatim>\<open>cursorAssigned\<close> only. On the line \<^verbatim>\<open>x y\<close>, which is refused
  before it runs, the dry run throws: the error is delivered and \<^verbatim>\<open>checkAwait\<close> is still
  true. On the line \<^verbatim>\<open>x.y\<close>, which fails while it runs, the dry run never settles:
  nothing is delivered and \<^verbatim>\<open>checkAwait\<close> is still true.
\<close>

theorem checkAwait_left_set_on_error:
  "checkAwait demo_state = False \<and>
   fst (customEval demo_host True ''x y'' 7 ''repl'' demo_state) =
     Some (Inl (JsError ''evaluation failed'')) \<and>
   trace (snd (customEval demo_host True ''x y'' 7 ''repl'' demo_state)) =
     [CallEval ''x y'' 7 True False, Callback (Inl (JsError ''evaluation failed''))] \<and>
   checkAwait (snd (customEval demo_host True ''x y'' 7 ''repl'' demo_state)) = True \<and>
   fst (customEval demo_host True ''x.y'' 7 ''repl'' demo_state) = None \<and>
   trace (snd (customEval demo_host True ''x.y'' 7 ''repl'' demo_state)) =
     [CallEval ''x.y'' 7 True False] \<and>
   checkAwait (snd (customEval demo_host True ''x.y'' 7 ''repl'' demo_state)) = True"
  by code_simp

subsection \<open>The shell verbs\<close>

text \<open>
  C3, as stated, fails twice. With rewriting enabled the line \<^verbatim>\<open>it\<close> runs through the
  dry run, the rewriter and the second pass, and \<^verbatim>\<open>shellApi.it\<close> is called twice. And the
  line \<^verbatim>\<open>use<TAB>db1\<close>, whose first white-space-separated token is \<^verbatim>\<open>use\<close>, is not taken
  as a verb at all, since the code splits the line at space characters only.
\<close>

theorem verb_in_pipeline_counterexample:
  "first_ws_token ''it'' = ''it'' \<and>
   emitted demo_state (snd (customEval demo_host True ''it'' 7 ''repl'' demo_state)) =
     [CallIt, CallCompile ''it'' [], CallIt, Callback (Inr (JNum 2))] \<and>
   length (filter is_handler_call
     (emitted demo_state (snd (customEval demo_host True ''it'' 7 ''repl'' demo_state)))) = 2 \<and>
   first_ws_token (''use'' @ [CHR 0x09] @ ''db1'') = ''use'' \<and>
   emitted demo_state
     (snd (customEval demo_host False (''use'' @ [CHR 0x09] @ ''db1'') 7 ''repl'' demo_state)) =
     [CallEval (''use'' @ [CHR 0x09] @ ''db1'') 7 False False,
      Callback (Inl (JsError ''evaluation failed''))]"
  by code_simp

text \<open>
  C3, amended. For a line whose trimmed text has \<^verbatim>\<open>use\<close>, \<^verbatim>\<open>it\<close> or \<^verbatim>\<open>help()\<close> before its
  first space character (the verb is then the first white-space-separated token of the
  line), a call of \<^verbatim>\<open>evaluator\<close> calls the handler of the verb, once, and nothing else
  of the host. With rewriting disabled \<^verbatim>\<open>customEval\<close> makes this one call and
  delivers its result. With rewriting enabled the line still enters the pipeline: the dry
  run calls the handler once; if the handler throws, the error is delivered, and if it
  returns, the line is handed to the rewriter next.
\<close>

theorem verb_handled_directly:
  assumes "is_verb (command input)"
  shows "first_ws_token input = command input \<and>
         is_handler_call (verb_event input) \<and>
         emitted s (snd (evaluator h input context filename s)) = [verb_event input] \<and>
         (\<exists>r. fst (customEval h False input context filename s) = Some r \<and>
              emitted s (snd (customEval h False input context filename s)) =
                [verb_event input, Callback r]) \<and>
         (case evaluator h input context filename (s\<lparr>checkAwait := True, awaitLoc := []\<rparr>) of
            (None, s2) \<Rightarrow> False
          | (Some (Inl err), s2) \<Rightarrow>
              emitted s (snd (customEval h True input context filename s)) =
                [verb_event input, Callback (Inl err)]
          | (Some (Inr dry), s2) \<Rightarrow>
              take 2 (emitted s (snd (customEval h True input context filename s))) =
                [verb_event input, CallCompile input (awaitLoc s2)])"
proof -
  have ev: "evaluator_event input context t = verb_event input" for t :: "'a state"
    using assms by (simp add: evaluator_event_def)
  have a: "emitted s (snd (evaluator h input context filename s)) = [verb_event input]"
    by (simp add: emitted_def evaluator_trace ev)
  have "fst (customEval h False input context filename s) \<noteq> None"
    using evaluator_verb_settles [OF assms, of h "context" filename s]
    by (auto simp: customEval_False split: prod.splits option.splits)
  then obtain r0 where r0: "fst (customEval h False input context filename s) = Some r0"
    by auto
  then have "emitted s (snd (customEval h False input context filename s)) =
           [verb_event input, Callback r0]"
    by (simp add: emitted_def customEval_trace_False ev)
  with r0 have b: "\<exists>r. fst (customEval h False input context filename s) = Some r \<and>
              emitted s (snd (customEval h False input context filename s)) =
                [verb_event input, Callback r]"
    by blast
  let ?s1 = "s\<lparr>checkAwait := True, awaitLoc := []\<rparr>"
  obtain r s2 where dry: "evaluator h input context filename ?s1 = (r, s2)"
    by (cases "evaluator h input context filename ?s1")
  have t2: "trace s2 = trace s @ [verb_event input]"
    using evaluator_trace [of h input "context" filename "?s1"] dry by (simp add: ev)
  have rs: "r \<noteq> None"
    using evaluator_verb_settles [OF assms, of h "context" filename ?s1] dry by simp
  have c: "(case evaluator h input context filename ?s1 of
            (None, s2) \<Rightarrow> False
          | (Some (Inl err), s2) \<Rightarrow>
              emitted s (snd (customEval h True input context filename s)) =
                [verb_event input, Callback (Inl err)]
          | (Some (Inr dry), s2) \<Rightarrow>
              take 2 (emitted s (snd (customEval h True input context filename s))) =
                [verb_event input, CallCompile input (awaitLoc s2)])"
    using dry t2 rs
    by (auto simp: customEval_def passes_def emitted_def emit_fields Let_def
          dest!: evaluator_trace_eq split: prod.splits option.splits sum.splits)
  from a b c show ?thesis
    by (simp add: is_handler_call_verb_event verb_is_first_ws_token [OF assms])
qed

text \<open>The theorem at the line \<^verbatim>\<open>it\<close>, on the concrete host.\<close>

theorem verb_handled_directly_witness:
  "is_verb (command ''it'') \<and>
   emitted demo_state (snd (evaluator demo_host ''it'' 7 ''repl'' demo_state)) = [CallIt] \<and>
   fst (customEval demo_host False ''it'' 7 ''repl'' demo_state) = Some (Inr (JNum 1)) \<and>
   emitted demo_state (snd (customEval demo_host False ''it'' 7 ''repl'' demo_state)) =
     [CallIt, Callback (Inr (JNum 1))]"
proof -
  have h: "is_verb (command ''it'')" by code_simp
  have e: "verb_event ''it'' = CallIt" by code_simp
  have r: "fst (customEval demo_host False ''it'' 7 ''repl'' demo_state) = Some (Inr (JNum 1))"
    by code_simp
  show ?thesis
    using h e r verb_handled_directly [OF h, of demo_state demo_host 7 "''repl''"] by auto
qed

subsection \<open>The rewriting path and the plain path\<close>

text \<open>
  C4, as stated, fails. On the lines \<^verbatim>\<open>it\<close> and \<^verbatim>\<open>n = n + 1\<close> the rewriter returns the
  trimmed line itself. Without rewriting, \<^verbatim>\<open>it\<close> delivers the first batch and one batch
  has been handed out; with rewriting it delivers the second batch and two have been
  handed out, since the dry run has called the iterator too. Without rewriting,
  \<^verbatim>\<open>n = n + 1\<close> delivers 1 and leaves \<^verbatim>\<open>n\<close> at 1 in the context; with rewriting it delivers 2
  and leaves \<^verbatim>\<open>n\<close> at 2.
\<close>

theorem rewriting_path_differs_counterexample:
  "compile demo_host ''it'' [] = Inr (trim ''it'') \<and>
   fst (customEval demo_host False ''it'' 7 ''repl'' demo_state) = Some (Inr (JNum 1)) \<and>
   batches (world (snd (customEval demo_host False ''it'' 7 ''repl'' demo_state))) = 1 \<and>
   fst (customEval demo_host True ''it'' 7 ''repl'' demo_state) = Some (Inr (JNum 2)) \<and>
   batches (world (snd (customEval demo_host True ''it'' 7 ''repl'' demo_state))) = 2 \<and>
   compile demo_host ''n = n + 1'' [] = Inr (trim ''n = n + 1'') \<and>
   fst (customEval demo_host False ''n = n + 1'' 7 ''repl'' demo_state) =
     Some (Inr (JStr ''1'')) \<and>
   binding_n (world (snd (customEval demo_host False ''n = n + 1'' 7 ''repl'' demo_state))) 7 = 1 \<and>
   fst (customEval demo_host True ''n = n + 1'' 7 ''repl'' demo_state) =
     Some (Inr (JStr ''2'')) \<and>
   binding_n (world (snd (customEval demo_host True ''n = n + 1'' 7 ''repl'' demo_state))) 7 = 2"
  by code_simp

text \<open>
  C4, amended. When the dry run returns, the rewriter returns \<open>syncStr\<close>, and the trimmed
  \<open>syncStr\<close> is the trimmed line, then \<^verbatim>\<open>customEval\<close> with rewriting is \<^verbatim>\<open>customEval\<close>
  without rewriting on \<open>syncStr\<close>, started in the state that the dry run has left, with
  \<^verbatim>\<open>checkAwait\<close> cleared: the same result is delivered, the same state is reached and
  nothing is logged in between.
\<close>

theorem rewriting_path_is_second_pass:
  assumes "evaluator h input context filename (s\<lparr>checkAwait := True, awaitLoc := []\<rparr>) =
             (Some (Inr dry), s2)"
    and "compile h input (awaitLoc s2) = Inr syncStr"
    and "trim syncStr = trim input"
  shows "customEval h True input context filename s =
         customEval h False syncStr context filename
           ((emit (CallCompile input (awaitLoc s2)) s2)\<lparr>checkAwait := False\<rparr>)"
  using assms by (simp add: customEval_def passes_def Let_def)

text \<open>The theorem at the line \<^verbatim>\<open>n = n + 1\<close>, on the concrete host.\<close>

theorem rewriting_path_is_second_pass_witness:
  "fst (evaluator demo_host ''n = n + 1'' 7 ''repl''
          (demo_state\<lparr>checkAwait := True, awaitLoc := []\<rparr>)) = Some (Inr (JStr ''1'')) \<and>
   compile demo_host ''n = n + 1''
     (awaitLoc (snd (evaluator demo_host ''n = n + 1'' 7 ''repl''
          (demo_state\<lparr>checkAwait := True, awaitLoc := []\<rparr>)))) = Inr ''n = n + 1'' \<and>
   customEval demo_host True ''n = n + 1'' 7 ''repl'' demo_state =
   customEval demo_host False ''n = n + 1'' 7 ''repl''
     ((emit (CallCompile ''n = n + 1''
         (awaitLoc (snd (evaluator demo_host ''n = n + 1'' 7 ''repl''
            (demo_state\<lparr>checkAwait := True, awaitLoc := []\<rparr>)))))
       (snd (evaluator demo_host ''n = n + 1'' 7 ''repl''
            (demo_state\<lparr>checkAwait := True, awaitLoc := []\<rparr>))))\<lparr>checkAwait := False\<rparr>)"
proof -
  let ?dry = "evaluator demo_host ''n = n + 1'' 7 ''repl''
                (demo_state\<lparr>checkAwait := True, awaitLoc := []\<rparr>)"
  have v: "fst ?dry = Some (Inr (JStr ''1''))" by code_simp
  have h1: "?dry = (Some (Inr (JStr ''1'')), snd ?dry)"
    using v by (simp add: prod_eq_iff)
  have h2: "compile demo_host ''n = n + 1'' (awaitLoc (snd ?dry)) = Inr ''n = n + 1''"
    by (simp add: demo_host_def)
  have h3: "trim ''n = n + 1'' = trim ''n = n + 1''" by simp
  show ?thesis
    using v h2 rewriting_path_is_second_pass [OF h1 h2 h3] by simp
qed

subsection \<open>The flag of the \<^verbatim>\<open>var\<close> lines\<close>

text \<open>
  C5, as stated, fails twice. The first white-space-separated token of \<^verbatim>\<open>var<TAB>x = 1\<close>
  is \<^verbatim>\<open>var\<close>, but the piece before the first space character is \<^verbatim>\<open>var<TAB>x\<close>, and the
  original \<^verbatim>\<open>eval\<close> runs with \<^verbatim>\<open>cursorAssigned\<close> false. And the line \<^verbatim>\<open>var x = y.z\<close> fails
  while it runs: the promise of the original \<^verbatim>\<open>eval\<close> never settles, nothing is passed to
  the callback, the \<^verbatim>\<open>finally\<close> block does not run, and \<^verbatim>\<open>cursorAssigned\<close> stays true.
\<close>

theorem var_tab_counterexample:
  "first_ws_token (''var'' @ [CHR 0x09] @ ''x = 1'') = ''var'' \<and>
   emitted demo_state
     (snd (customEval demo_host False (''var'' @ [CHR 0x09] @ ''x = 1'') 7 ''repl'' demo_state)) =
     [CallEval (''var'' @ [CHR 0x09] @ ''x = 1'') 7 False False,
      Callback (Inr (JStr ''undefined''))] \<and>
   first_ws_token ''var x = y.z'' = ''var'' \<and>
   fst (customEval demo_host False ''var x = y.z'' 7 ''repl'' demo_state) = None \<and>
   emitted demo_state (snd (customEval demo_host False ''var x = y.z'' 7 ''repl'' demo_state)) =
     [CallEval ''var x = y.z'' 7 False True] \<and>
   cursorAssigned (snd (customEval demo_host False ''var x = y.z'' 7 ''repl'' demo_state)) = True"
  by code_simp

text \<open>
  C5, amended. For a line whose trimmed text has \<^verbatim>\<open>var\<close> before its first space
  character (\<^verbatim>\<open>var\<close> is then the first white-space-separated token of the line), the
  first call that \<^verbatim>\<open>customEval\<close> makes is the original \<^verbatim>\<open>eval\<close> on the
  line, and this call and every later call of the original \<^verbatim>\<open>eval\<close> for the line find
  \<^verbatim>\<open>cursorAssigned\<close> true. For every line whose result or error \<open>r\<close> is delivered, the
  delivery of \<open>r\<close> to the callback is the last event and \<^verbatim>\<open>cursorAssigned\<close> is false
  afterwards. Nothing is said of a line whose evaluation never settles.
\<close>

theorem var_sets_cursorAssigned:
  "(command input = ''var'' \<longrightarrow>
      first_ws_token input = ''var'' \<and>
      hd (emitted s (snd (customEval h useAntlr input context filename s))) =
        CallEval input context (useAntlr \<or> checkAwait s) True \<and>
      list_all sees_cursorAssigned
        (emitted s (snd (customEval h useAntlr input context filename s)))) \<and>
   (fst (customEval h useAntlr input context filename s) = Some r \<longrightarrow>
      cursorAssigned (snd (customEval h useAntlr input context filename s)) = False \<and>
      last (trace (snd (customEval h useAntlr input context filename s))) = Callback r)"
proof -
  have "hd (emitted s (snd (customEval h useAntlr input context filename s))) =
        CallEval input context (useAntlr \<or> checkAwait s) True \<and>
      list_all sees_cursorAssigned
        (emitted s (snd (customEval h useAntlr input context filename s)))"
    if v: "command input = ''var''"
  proof (cases useAntlr)
    case False
    then show ?thesis
      using v
      by (simp add: emitted_def customEval_trace_False evaluator_event_def is_verb_def
            split: option.splits)
  next
    case True
    have e1: "evaluator_event input context t = CallEval input context (checkAwait t) True"
      for t :: "'a state"
      using v by (simp add: evaluator_event_def is_verb_def)
    have e2: "sees_cursorAssigned (evaluator_event i context t)" if "cursorAssigned t"
      for t :: "'a state" and i
      using that by (simp add: evaluator_event_def verb_event_def)
    show ?thesis
      using True v
      by (simp add: customEval_def passes_def emitted_def emit_fields Let_def case_prod_beta
            option.case_eq_if sum.case_eq_if evaluator_trace evaluator_cursorAssigned e1 e2)
  qed
  then show ?thesis
    using customEval_delivered [of h useAntlr input "context" filename s r]
    by (simp add: var_is_first_ws_token)
qed

text \<open>The theorem at the line \<^verbatim>\<open>var x = 1\<close>, with rewriting enabled.\<close>

theorem var_sets_cursorAssigned_witness:
  "command ''var x = 1'' = ''var'' \<and>
   hd (emitted demo_state (snd (customEval demo_host True ''var x = 1'' 7 ''repl'' demo_state))) =
     CallEval ''var x = 1'' 7 True True \<and>
   list_all sees_cursorAssigned
     (emitted demo_state (snd (customEval demo_host True ''var x = 1'' 7 ''repl'' demo_state))) \<and>
   fst (customEval demo_host True ''var x = 1'' 7 ''repl'' demo_state) =
     Some (Inr (JStr ''undefined'')) \<and>
   cursorAssigned (snd (customEval demo_host True ''var x = 1'' 7 ''repl'' demo_state)) = False \<and>
   last (trace (snd (customEval demo_host True ''var x = 1'' 7 ''repl'' demo_state))) =
     Callback (Inr (JStr ''undefined''))"
proof -
  have h: "command ''var x = 1'' = ''var''" by code_simp
  have d: "fst (customEval demo_host True ''var x = 1'' 7 ''repl'' demo_state) =
             Some (Inr (JStr ''undefined''))"
    by code_simp
  show ?thesis
    using h d
      var_sets_cursorAssigned [of "''var x = 1''" demo_state demo_host True 7 "''repl''"
        "Inr (JStr ''undefined'')"]
    by simp
qed

subsection \<open>What the evaluator returns\<close>

text \<open>
  C10, as stated, fails. The first white-space-separated token of \<^verbatim>\<open>it<TAB>// more\<close> is
  \<^verbatim>\<open>it\<close>, and \<^verbatim>\<open>shellApi.it\<close> would return the first batch; the evaluator calls the
  original \<^verbatim>\<open>eval\<close> on the line instead and returns what that gives, here an error.
\<close>

theorem verb_tab_counterexample:
  "first_ws_token (''it'' @ [CHR 0x09] @ ''// more'') = ''it'' \<and>
   fst (shellApi_it demo_host False False (world demo_state)) = Inr (JNum 1) \<and>
   fst (evaluator demo_host (''it'' @ [CHR 0x09] @ ''// more'') 7 ''repl'' demo_state) =
     Some (Inl (JsError ''evaluation failed'')) \<and>
   emitted demo_state
     (snd (evaluator demo_host (''it'' @ [CHR 0x09] @ ''// more'') 7 ''repl'' demo_state)) =
     [CallEval (''it'' @ [CHR 0x09] @ ''// more'') 7 False False]"
  by code_simp

text \<open>
  C10, amended. For a line whose trimmed text has \<^verbatim>\<open>use\<close>, \<^verbatim>\<open>it\<close> or \<^verbatim>\<open>help()\<close> before
  its first space character (the verb is then the first white-space-separated token of
  the line), the evaluator returns what the handler of the shell API
  returns (or throws), as it is. For every other line it calls the original \<^verbatim>\<open>eval\<close>; an
  error of that call is the result, a value \<open>v\<close> is given to \<^verbatim>\<open>writer\<close>, whose result is
  the result, and there is no result when the call never settles. \<^verbatim>\<open>writer\<close> returns what the \<^verbatim>\<open>toReplString\<close> method of the value returns
  when the value has one, a string as it is, and the rendering of \<^verbatim>\<open>util.inspect\<close> for a
  value that is no string and has no truthy \<^verbatim>\<open>toReplString\<close> property.
\<close>

theorem evaluator_result:
  "(is_verb (command input) \<longrightarrow> first_ws_token input = command input) \<and>
   (command input = ''use'' \<longrightarrow>
      fst (evaluator h input context filename s) =
      Some (fst (shellApi_use h (first_arg input) (checkAwait s) (cursorAssigned s) (world s)))) \<and>
   (command input = ''it'' \<longrightarrow>
      fst (evaluator h input context filename s) =
      Some (fst (shellApi_it h (checkAwait s) (cursorAssigned s) (world s)))) \<and>
   (command input = ''help()'' \<longrightarrow>
      fst (evaluator h input context filename s) = Some (Inr (shellApi_help h))) \<and>
   (\<not> is_verb (command input) \<longrightarrow>
      (case originalEval h input context filename (checkAwait s)
              (command input = ''var'' \<or> cursorAssigned s) (world s) of
         (None, locs, w) \<Rightarrow> fst (evaluator h input context filename s) = None
       | (Some (Inl err), locs, w) \<Rightarrow>
           fst (evaluator h input context filename s) = Some (Inl err)
       | (Some (Inr v), locs, w) \<Rightarrow>
           evaluator h input context filename s =
           settled (writer h v
             (s\<lparr>cursorAssigned := (command input = ''var'' \<or> cursorAssigned s),
                trace := trace s @ [CallEval input context (checkAwait s)
                           (command input = ''var'' \<or> cursorAssigned s)],
                world := w, awaitLoc := awaitLoc s @ locs\<rparr>)))) \<and>
   (get_prop v ''toReplString'' = JFun f \<longrightarrow>
      writer h v t = run_effect (call_method h f v) t) \<and>
   writer h (JStr x) t = (Inr (JStr x), t) \<and>
   (\<not> truthy (get_prop v ''toReplString'') \<and> \<not> is_string v \<longrightarrow>
      writer h v t = (Inr (JStr (inspect h v)), t))"
proof -
  have verbs:
    "command input = ''use'' \<longrightarrow>
      fst (evaluator h input context filename s) =
      Some (fst (shellApi_use h (first_arg input) (checkAwait s) (cursorAssigned s) (world s)))"
    "command input = ''it'' \<longrightarrow>
      fst (evaluator h input context filename s) =
      Some (fst (shellApi_it h (checkAwait s) (cursorAssigned s) (world s)))"
    "command input = ''help()'' \<longrightarrow>
      fst (evaluator h input context filename s) = Some (Inr (shellApi_help h))"
    by (simp_all add: evaluator_def run_effect_def emit_def case_prod_beta settled_simps)
  have other: "\<not> is_verb (command input) \<longrightarrow>
      (case originalEval h input context filename (checkAwait s)
              (command input = ''var'' \<or> cursorAssigned s) (world s) of
         (None, locs, w) \<Rightarrow> fst (evaluator h input context filename s) = None
       | (Some (Inl err), locs, w) \<Rightarrow>
           fst (evaluator h input context filename s) = Some (Inl err)
       | (Some (Inr v), locs, w) \<Rightarrow>
           evaluator h input context filename s =
           settled (writer h v
             (s\<lparr>cursorAssigned := (command input = ''var'' \<or> cursorAssigned s),
                trace := trace s @ [CallEval input context (checkAwait s)
                           (command input = ''var'' \<or> cursorAssigned s)],
                world := w, awaitLoc := awaitLoc s @ locs\<rparr>)))"
    by (cases "command input = ''var''")
       (auto simp: is_verb_def evaluator_def run_eval_def emit_def Let_def
          split: prod.splits option.splits sum.splits)
  have w1: "get_prop v ''toReplString'' = JFun f \<longrightarrow>
      writer h v t = run_effect (call_method h f v) t"
    by (auto simp: writer_def dest: get_prop_JFun_truthy)
  have w2: "writer h (JStr x) t = (Inr (JStr x), t)"
    by (simp add: writer_def)
  have w3: "\<not> truthy (get_prop v ''toReplString'') \<and> \<not> is_string v \<longrightarrow>
      writer h v t = (Inr (JStr (inspect h v)), t)"
    by (simp add: writer_def)
  from verbs other w1 w2 w3 verb_is_first_ws_token [of input] show ?thesis by blast
qed

text \<open>The theorem on the concrete host, at one line for each of its cases.\<close>

theorem evaluator_result_witness:
  "command ''use db1'' = ''use'' \<and>
   fst (evaluator demo_host ''use db1'' 7 ''repl'' demo_state) =
     Some (fst (shellApi_use demo_host (first_arg ''use db1'') (checkAwait demo_state)
            (cursorAssigned demo_state) (world demo_state))) \<and>
   command ''it'' = ''it'' \<and>
   fst (evaluator demo_host ''it'' 7 ''repl'' demo_state) =
     Some (fst (shellApi_it demo_host (checkAwait demo_state) (cursorAssigned demo_state)
            (world demo_state))) \<and>
   command ''help()'' = ''help()'' \<and>
   fst (evaluator demo_host ''help()'' 7 ''repl'' demo_state) =
     Some (Inr (shellApi_help demo_host)) \<and>
   \<not> is_verb (command ''n = n + 1'') \<and>
   fst (evaluator demo_host ''n = n + 1'' 7 ''repl'' demo_state) = Some (Inr (JStr ''1'')) \<and>
   get_prop (JObj [(''toReplString'', JFun 0)]) ''toReplString'' = JFun 0 \<and>
   writer demo_host (JObj [(''toReplString'', JFun 0)]) demo_state =
     run_effect (call_method demo_host 0 (JObj [(''toReplString'', JFun 0)])) demo_state \<and>
   \<not> truthy (get_prop (JNum 1) ''toReplString'') \<and> \<not> is_string (JNum 1) \<and>
   writer demo_host (JNum 1) demo_state = (Inr (JStr (inspect demo_host (JNum 1))), demo_state)"
proof -
  have c1: "command ''use db1'' = ''use''" by code_simp
  have c2: "command ''it'' = ''it''" by code_simp
  have c3: "command ''help()'' = ''help()''" by code_simp
  have c4: "\<not> is_verb (command ''n = n + 1'')" by code_simp
  have c5: "get_prop (JObj [(''toReplString'', JFun 0)]) ''toReplString'' = JFun 0" by simp
  have c6: "\<not> truthy (get_prop (JNum 1) ''toReplString'') \<and> \<not> is_string (JNum 1)" by simp
  have e4: "originalEval demo_host ''n = n + 1'' 7 ''repl'' (checkAwait demo_state)
              (command ''n = n + 1'' = ''var'' \<or> cursorAssigned demo_state) (world demo_state) =
            (Some (Inr (JNum 1)), [],
             (world demo_state)\<lparr>binding_n := (binding_n (world demo_state))(7 := 1)\<rparr>)"
    by (simp add: demo_host_def demo_eval_def demo_state_def trim_def is_space_def)
  have w4: "fst (writer demo_host (JNum 1) u) = Inr (JStr ''1'')" for u
    by (simp add: writer_def demo_host_def demo_inspect_def)
  note r1 = evaluator_result [of "''use db1''" demo_host 7 "''repl''" demo_state "JNum 1" 0 demo_state "''abc''"]
  note r2 = evaluator_result [of "''it''" demo_host 7 "''repl''" demo_state "JNum 1" 0 demo_state "''abc''"]
  note r3 = evaluator_result [of "''help()''" demo_host 7 "''repl''" demo_state
      "JObj [(''toReplString'', JFun 0)]" 0 demo_state "''abc''"]
  note r4 = evaluator_result [of "''n = n + 1''" demo_host 7 "''repl''" demo_state "JNum 1" 0 demo_state "''abc''"]
  have a1: "fst (evaluator demo_host ''use db1'' 7 ''repl'' demo_state) =
     Some (fst (shellApi_use demo_host (first_arg ''use db1'') (checkAwait demo_state)
            (cursorAssigned demo_state) (world demo_state)))"
    using r1 c1 by blast
  have a2: "fst (evaluator demo_host ''it'' 7 ''repl'' demo_state) =
     Some (fst (shellApi_it demo_host (checkAwait demo_state) (cursorAssigned demo_state)
            (world demo_state)))"
    using r2 c2 by blast
  have a3: "fst (evaluator demo_host ''help()'' 7 ''repl'' demo_state) =
              Some (Inr (shellApi_help demo_host))"
    using r3 c3 by blast
  have a5: "writer demo_host (JObj [(''toReplString'', JFun 0)]) demo_state =
     run_effect (call_method demo_host 0 (JObj [(''toReplString'', JFun 0)])) demo_state"
    using r3 c5 by blast
  have a6: "writer demo_host (JNum 1) demo_state = (Inr (JStr (inspect demo_host (JNum 1))), demo_state)"
    using r4 c6 by blast
  have a4: "fst (evaluator demo_host ''n = n + 1'' 7 ''repl'' demo_state) = Some (Inr (JStr ''1''))"
    using r4 c4 e4 by (simp add: w4 settled_simps)
  from c1 c2 c3 c4 c5 c6 a1 a2 a3 a4 a5 a6 show ?thesis by blast
qed

section \<open>Properties of the editor bridge\<close>

subsection \<open>Splitting and joining\<close>

lemma split_on_not_Nil: "split_on d s \<noteq> []"
  by (induction s) (simp_all add: Let_def)

lemma join_split_on: "join_with d (split_on d s) = s"
proof (induction s)
  case Nil
  then show ?case by simp
next
  case (Cons c cs)
  obtain w ws where r: "split_on d cs = w # ws"
    using split_on_not_Nil [of d cs] by (cases "split_on d cs") auto
  with Cons show ?case by (cases ws) (auto simp: Let_def)
qed

lemma split_on_no_sep: "d \<notin> set s \<Longrightarrow> split_on d s = [s]"
  by (induction s) (auto simp: Let_def)

lemma split_on_append: "d \<notin> set n \<Longrightarrow> split_on d (n @ d # p) = n # split_on d p"
  by (induction n) (auto simp: Let_def)

subsection \<open>Names and dotted paths\<close>

lemma is_ident_part_not_dot: "is_ident_part c \<Longrightarrow> c \<noteq> CHR ''.''"
  by (auto simp: is_ident_part_def is_ident_start_def is_letter_def is_digit_def Let_def)

lemma is_name_chars: "is_name n \<Longrightarrow> \<forall>c\<in>set n. is_ident_part c"
  by (cases n) (auto simp: is_ident_part_def list_all_iff)

lemma is_name_no_dot: "is_name n \<Longrightarrow> CHR ''.'' \<notin> set n"
  using is_name_chars is_ident_part_not_dot by blast

lemma dotted_path_split: "dotted_path p \<Longrightarrow> list_all is_name (split_on CHR ''.'' p)"
proof (induction rule: dotted_path.induct)
  case (name n)
  then show ?case by (simp add: split_on_no_sep is_name_no_dot)
next
  case (dot n p)
  then show ?case by (simp add: split_on_append is_name_no_dot)
qed

lemma join_names_dotted:
  "xs \<noteq> [] \<Longrightarrow> list_all is_name xs \<Longrightarrow> dotted_path (join_with CHR ''.'' xs)"
proof (induction xs)
  case Nil
  then show ?case by simp
next
  case (Cons x xs)
  show ?case
  proof (cases xs)
    case Nil
    with Cons.prems show ?thesis by (simp add: dotted_path.name)
  next
    case (Cons y ys)
    with Cons.IH Cons.prems have "dotted_path (join_with CHR ''.'' (y # ys))" by simp
    moreover from Cons.prems have "is_name x" by simp
    ultimately have "dotted_path (x @ ''.'' @ join_with CHR ''.'' (y # ys))"
      by (rule dotted_path.dot [rotated])
    with Cons show ?thesis by simp
  qed
qed

lemma split_names_iff_dotted_path:
  "list_all is_name (split_on CHR ''.'' s) \<longleftrightarrow> dotted_path s"
  using join_names_dotted [OF split_on_not_Nil, of "CHR ''.''" s] dotted_path_split [of s]
  by (auto simp: join_split_on)

lemma dotted_path_chars: "dotted_path p \<Longrightarrow> \<forall>c\<in>set p. is_ident_part c \<or> c = CHR ''.''"
  by (induction rule: dotted_path.induct) (auto dest: is_name_chars)

lemma syntax_chars_not_ident: "c \<in> set syntax_chars \<Longrightarrow> \<not> (is_ident_part c \<or> c = CHR ''.'')"
  by (auto simp: syntax_chars_def is_ident_part_def is_ident_start_def is_letter_def
        is_digit_def Let_def)

subsection \<open>Trimming twice\<close>

lemma dropWhile_trim: "dropWhile is_space (trim s) = trim s"
proof (cases "trim s")
  case Nil
  then show ?thesis by simp
next
  case (Cons c cs)
  define a where "a = dropWhile is_space s"
  obtain r where "a = trim s @ r"
    unfolding a_def using trim_decomposition by blast
  with Cons have a: "a = c # (cs @ r)" by simp
  have "a \<noteq> [] \<Longrightarrow> \<not> is_space (hd a)"
    unfolding a_def by (rule hd_dropWhile)
  with a have "\<not> is_space c" by simp
  with Cons show ?thesis by simp
qed

lemma dropWhile_rev_trim: "dropWhile is_space (rev (trim s)) = rev (trim s)"
  by (simp add: trim_def)

lemma trim_trim: "trim (trim s) = trim s"
proof -
  have "trim (trim s) = rev (dropWhile is_space (rev (dropWhile is_space (trim s))))"
    by (simp add: trim_def)
  also have "\<dots> = rev (dropWhile is_space (rev (trim s)))"
    by (simp add: dropWhile_trim)
  also have "\<dots> = trim s"
    by (simp add: dropWhile_rev_trim)
  finally show ?thesis .
qed

lemma isBareIdentifier_trim: "isBareIdentifier (trim s) = isBareIdentifier s"
  by (simp add: isBareIdentifier_def trim_trim)

subsection \<open>Reconciliation\<close>

text \<open>
  C6. For all texts \<open>s\<close> and \<open>m\<close>: when the trimmed \<open>s\<close> is a bare identifier,
  \<^verbatim>\<open>_prepareResult\<close> returns \<open>s\<close>, \<^verbatim>\<open> = \<close> and \<open>m\<close> in a row; when it is not, it returns
  \<open>m\<close> unchanged.
\<close>

theorem prepareResult_rebinds_identifier:
  "(isBareIdentifier (trim s) \<longrightarrow> prepareResult s m = s @ '' = '' @ m) \<and>
   (\<not> isBareIdentifier (trim s) \<longrightarrow> prepareResult s m = m)"
  by (simp add: prepareResult_def isBareIdentifier_trim)

text \<open>The two cases of the theorem at the inputs of the tests of \<^verbatim>\<open>_prepareResult\<close>.\<close>

theorem prepareResult_rebinds_identifier_witness:
  "isBareIdentifier (trim ''fn'') \<and>
   prepareResult ''fn'' ''function() { console.log(222); };'' =
     ''fn = function() { console.log(222); };'' \<and>
   \<not> isBareIdentifier (trim ''111'') \<and> prepareResult ''111'' ''222'' = ''222''"
proof -
  have a: "isBareIdentifier (trim ''fn'')" by code_simp
  have b: "\<not> isBareIdentifier (trim ''111'')" by code_simp
  show ?thesis
    using a b
      prepareResult_rebinds_identifier [of "''fn''" "''function() { console.log(222); };''"]
      prepareResult_rebinds_identifier [of "''111''" "''222''"]
    by simp
qed

subsection \<open>Bare identifiers\<close>

text \<open>
  C7. \<^verbatim>\<open>isBareIdentifier\<close> is true iff the trimmed text is a dotted path of names; a text
  it accepts has, once trimmed, no parenthesis, bracket, brace, quote, operator or white
  space in it. On the texts of the tests of \<^verbatim>\<open>_isIdentifier\<close>: true for \<^verbatim>\<open>db.test.find\<close>
  and \<^verbatim>\<open>$something\<close>; false for the two calls of \<^verbatim>\<open>find\<close>, the two accesses with brackets
  and quotes, the sum, the class, the string and the number.
\<close>

theorem isBareIdentifier_dotted_path:
  "(isBareIdentifier code \<longleftrightarrow> dotted_path (trim code)) \<and>
   (isBareIdentifier code \<longrightarrow> set (trim code) \<inter> set syntax_chars = {}) \<and>
   isBareIdentifier ''db.test.find'' \<and>
   isBareIdentifier ''$something'' \<and>
   \<not> isBareIdentifier ''db.test.find()'' \<and>
   \<not> isBareIdentifier (''db.test.find({ name: '' @ [CHR 0x27] @ ''lena'' @ [CHR 0x27] @ '' })'') \<and>
   \<not> isBareIdentifier ''db[\"test\"]find'' \<and>
   \<not> isBareIdentifier (''db['' @ [CHR 0x27] @ ''test'' @ [CHR 0x27] @ '']find'') \<and>
   \<not> isBareIdentifier ''1 + 2'' \<and>
   \<not> isBareIdentifier ''class A {}'' \<and>
   \<not> isBareIdentifier ''\"some string\"'' \<and>
   \<not> isBareIdentifier ''111''"
proof -
  have iff: "isBareIdentifier code \<longleftrightarrow> dotted_path (trim code)"
    by (simp add: isBareIdentifier_def split_names_iff_dotted_path)
  have chars: "isBareIdentifier code \<longrightarrow> set (trim code) \<inter> set syntax_chars = {}"
    using iff dotted_path_chars [of "trim code"] syntax_chars_not_ident by blast
  have yes: "isBareIdentifier ''db.test.find''" "isBareIdentifier ''$something''"
    by code_simp+
  have no1: "\<not> isBareIdentifier ''db.test.find()''"
    "\<not> isBareIdentifier (''db.test.find({ name: '' @ [CHR 0x27] @ ''lena'' @ [CHR 0x27] @ '' })'')"
    "\<not> isBareIdentifier ''db[\"test\"]find''"
    "\<not> isBareIdentifier (''db['' @ [CHR 0x27] @ ''test'' @ [CHR 0x27] @ '']find'')"
    by code_simp+
  have no2: "\<not> isBareIdentifier ''1 + 2''" "\<not> isBareIdentifier ''class A {}''"
    "\<not> isBareIdentifier ''\"some string\"''" "\<not> isBareIdentifier ''111''"
    by code_simp+
  from iff chars yes no1 no2 show ?thesis by blast
qed

text \<open>The theorem at a text with white space around a dotted path.\<close>

theorem isBareIdentifier_dotted_path_witness:
  "isBareIdentifier '' db.test.find '' \<and> dotted_path (trim '' db.test.find '') \<and>
   set (trim '' db.test.find '') \<inter> set syntax_chars = {}"
proof -
  have a: "isBareIdentifier '' db.test.find ''" by code_simp
  show ?thesis
    using a isBareIdentifier_dotted_path [of "'' db.test.find ''"] by blast
qed

subsection \<open>The editor command\<close>

text \<open>
  C8. \<^verbatim>\<open>resolveEditorCommand\<close> returns the configuration value when there is one, whatever
  the environment says; the environment fallback when only that is there; and fails with
  \<^verbatim>\<open>NoEditorConfigured\<close> when there is neither. The edit flow then fails with the same
  error, whose message contains \<^verbatim>\<open>please define an external editor\<close>. The last two lines
  are the tests of \<^verbatim>\<open>_getEditor\<close>.
\<close>

theorem resolveEditorCommand_precedence:
  "resolveEditorCommand (Some cmd) env = Inr cmd \<and>
   resolveEditorCommand None (Some fallback) = Inr fallback \<and>
   resolveEditorCommand None None = Inl NoEditorConfigured \<and>
   runEditCommand None None edit_with inputArgument = Inl NoEditorConfigured \<and>
   sublist ''please define an external editor'' (error_message NoEditorConfigured) \<and>
   resolveEditorCommand None (Some ''neweprocessditor'') = Inr ''neweprocessditor'' \<and>
   resolveEditorCommand (Some ''newecmdditor'') (Some ''neweprocessditor'') = Inr ''newecmdditor''"
proof -
  have "error_message NoEditorConfigured =
          ''Command failed with an error: '' @ ''please define an external editor'' @ []"
    by simp
  then have "sublist ''please define an external editor'' (error_message NoEditorConfigured)"
    unfolding sublist_def by blast
  then show ?thesis
    by (simp add: resolveEditorCommand_def runEditCommand_def)
qed

subsection \<open>The content opened for editing\<close>

text \<open>
  C9. \<^verbatim>\<open>prepareContent\<close> returns the stored last content for the empty argument when
  there is one, and the empty text when there is none; for an argument that is a bare
  identifier, the source text that the lookup gives for it; and any other argument
  unchanged.
\<close>

theorem prepareContent_cases:
  "prepareContent lookup (Some c) [] = c \<and>
   prepareContent lookup None [] = [] \<and>
   (inputArgument \<noteq> [] \<and> isBareIdentifier inputArgument \<longrightarrow>
      prepareContent lookup lastEditedContent inputArgument = lookup inputArgument) \<and>
   (inputArgument \<noteq> [] \<and> \<not> isBareIdentifier inputArgument \<longrightarrow>
      prepareContent lookup lastEditedContent inputArgument = inputArgument)"
  by (simp add: prepareContent_def)

text \<open>The theorem at the arguments of the tests of \<^verbatim>\<open>_getEditorContent\<close>.\<close>

theorem prepareContent_cases_witness:
  "prepareContent demo_lookup (Some ''db.test.find()'') [] = ''db.test.find()'' \<and>
   ''db.test.find'' \<noteq> [] \<and> isBareIdentifier ''db.test.find'' \<and>
   prepareContent demo_lookup (Some ''db.coll.find()'') ''db.test.find'' =
     ''function wrapper(...args) { return { args, done: true }; }'' \<and>
   ''1 + 1'' \<noteq> [] \<and> \<not> isBareIdentifier ''1 + 1'' \<and>
   prepareContent demo_lookup (Some ''db.coll.find()'') ''1 + 1'' = ''1 + 1''"
proof -
  have a: "isBareIdentifier ''db.test.find''" by code_simp
  have b: "\<not> isBareIdentifier ''1 + 1''" by code_simp
  show ?thesis
    using a b
      prepareContent_cases [of demo_lookup "''db.test.find()''" "''db.test.find''"
        "Some ''db.coll.find()''"]
      prepareContent_cases [of demo_lookup "''db.test.find()''" "''1 + 1''"
        "Some ''db.coll.find()''"]
    by (simp add: demo_lookup_def)
qed

end
